theory Spec2Isabelle
  imports Main "HOL-Library.Word" "HOL-Library.Log_Nat"
begin

unbundle bit_operations_syntax

section \<open>The class template \<open>Probability<EventName, Value>\<close>\<close>

text \<open>
  \<^verbatim>\<open>include/calculator/entities/probability.h\<close> declares one class template with two
  private data members, in this order:
  \<^verbatim>\<open>
    EventName event_name_;  // The name of the event.
    Value value_;           // The probability value.
  \<close>
  The template parameters become type parameters of the record. \<open>Value\<close> is constrained by
  the concept \<open>probability_t\<close> to a floating-point type; the member functions use nothing of
  it beyond copying, moving and \<open>+=\<close>, so each of them is modelled for every value type
  that has the operation it needs.
\<close>

record ('n, 'v) Probability =
  event_name' :: 'n
  value' :: 'v

subsection \<open>Accessors\<close>

text \<open>\<^verbatim>\<open>EventName GetEventName() const noexcept { return event_name_; }\<close>\<close>

definition GetEventName :: "('n, 'v) Probability \<Rightarrow> 'n" where
  "GetEventName this = event_name' this"

text \<open>\<^verbatim>\<open>Value GetValue() const noexcept { return value_; }\<close>\<close>

definition GetValue :: "('n, 'v) Probability \<Rightarrow> 'v" where
  "GetValue this = value' this"

subsection \<open>Mutators\<close>

text \<open>
  A member function that mutates \<open>*this\<close> takes the object's state and returns the new one.
  Each setter has two overloads; they are told apart here by a suffix, \<open>_copy\<close> for the
  overload taking \<open>const T&\<close> and \<open>_move\<close> for the one taking \<open>T&&\<close>.

  \<^verbatim>\<open>void SetValue(Value&& new_value) { value_ = std::move(new_value); }\<close>
\<close>

definition SetValue_move :: "('n, 'v) Probability \<Rightarrow> 'v \<Rightarrow> ('n, 'v) Probability" where
  "SetValue_move this new_value = this\<lparr>value' := new_value\<rparr>"

text \<open>
  \<^verbatim>\<open>
    void SetValue(const Value& new_value) {
      Value value_copy{new_value};
      SetValue(std::move(value_copy));
    }
  \<close>
  \<open>value_copy\<close> is a non-const local, so \<open>std::move(value_copy)\<close> is an rvalue of type
  \<open>Value\<close> and the call goes to the \<open>Value&&\<close> overload.
\<close>

definition SetValue_copy :: "('n, 'v) Probability \<Rightarrow> 'v \<Rightarrow> ('n, 'v) Probability" where
  "SetValue_copy this new_value =
     (let value_copy = new_value in SetValue_move this value_copy)"

text \<open>
  \<^verbatim>\<open>void SetEventName(EventName&& new_event_name) { event_name_ = std::move(new_event_name); }\<close>
\<close>

definition SetEventName_move :: "('n, 'v) Probability \<Rightarrow> 'n \<Rightarrow> ('n, 'v) Probability" where
  "SetEventName_move this new_event_name = this\<lparr>event_name' := new_event_name\<rparr>"

text \<open>
  \<^verbatim>\<open>
    void SetEventName(const EventName& new_event_name) {
      EventName event_name_copy{new_event_name};
      SetEventName(std::move(new_event_name));
    }
  \<close>
  Unlike \<open>SetValue\<close>, the body moves the parameter, not the local copy. The parameter is a
  \<open>const EventName&\<close>, so \<open>std::move(new_event_name)\<close> has type \<open>const EventName&&\<close>. An
  \<open>EventName&&\<close> parameter cannot bind to a const object, which leaves
  \<open>SetEventName(const EventName&)\<close> as the only viable overload: the function calls itself
  with the same argument. The call may not return, so the model is a partial function and
  \<open>None\<close> stands for a call that never returns.
\<close>

partial_function (option) SetEventName_copy ::
  "('n, 'v) Probability \<Rightarrow> 'n \<Rightarrow> ('n, 'v) Probability option" where
  "SetEventName_copy this new_event_name =
     (let event_name_copy = new_event_name in SetEventName_copy this new_event_name)"

text \<open>\<^verbatim>\<open>void ChangeValue(const Value& value_changing) { value_ += value_changing; }\<close>\<close>

definition ChangeValue :: "('n, 'v::plus) Probability \<Rightarrow> 'v \<Rightarrow> ('n, 'v) Probability" where
  "ChangeValue this value_changing = this\<lparr>value' := value' this + value_changing\<rparr>"

subsection \<open>Construction\<close>

text \<open>
  \<^verbatim>\<open>Probability() = default;\<close>

  Neither data member has a default member initializer, so the defaulted constructor
  default-initializes both. For a member of class type that runs its default constructor;
  the result is written \<open>default\<close>, and for a string it is the empty string. For a member of
  scalar type it does nothing, and \<open>Value\<close> is always a scalar: \<open>value_\<close> keeps what its
  storage holds when the constructor starts. That content is the parameter of the model. It
  is zero when the object is value-initialized (\<^verbatim>\<open>Probability<E, V>()\<close> or \<^verbatim>\<open>{}\<close>: the
  constructor is not user-provided, so the object is zero-initialized first) or has static
  storage, and it is indeterminate when the object is default-initialized
  (\<^verbatim>\<open>Probability<E, V> p;\<close>).
\<close>

instantiation list :: (type) default
begin

definition default_list :: "'a list" where
  "default_list = []"

instance ..

end

definition Probability_default :: "'v \<Rightarrow> ('n::default, 'v) Probability" where
  "Probability_default storage = \<lparr>event_name' = default, value' = storage\<rparr>"

text \<open>
  Modelled from the spec: the two-argument constructors
  \<^verbatim>\<open>Probability(const EventName& name, const Value& value);\<close> and
  \<^verbatim>\<open>Probability(EventName&& name, Value&& value);\<close> are declared in the class and defined
  nowhere in the header. The spec says of them: construction from \<open>(name, value)\<close> accepts
  either by-copy or by-move semantics depending on the caller's value category, stores both
  fields directly, and performs no validation.
\<close>

definition Probability_copy :: "'n \<Rightarrow> 'v \<Rightarrow> ('n, 'v) Probability" where
  "Probability_copy name val = \<lparr>event_name' = name, value' = val\<rparr>"

definition Probability_move :: "'n \<Rightarrow> 'v \<Rightarrow> ('n, 'v) Probability" where
  "Probability_move name val = \<lparr>event_name' = name, value' = val\<rparr>"

text \<open>
  \<^verbatim>\<open>
    template <typename EventName, probability_t Value>
    Probability<EventName, Value> CreateProbability(EventName event_name, Value value) {
      Probability<EventName, Value> new_instance;
      new_instance.event_name_ = event_name;
      new_instance.value_ = value;
      return new_instance;
    }
  \<close>
  \<open>CreateProbability\<close> is a free function template declared after the class. Its body
  assigns to \<open>event_name_\<close> and \<open>value_\<close>, which are private members of \<open>Probability\<close>, and
  the class declares no friend. Every instantiation of the template is therefore ill-formed:
  no call of \<open>CreateProbability\<close> compiles, and none returns a record. As with the
  comparison below, the declaration gives no function to embed, and the model has none.
\<close>

subsection \<open>Swap\<close>

text \<open>
  \<^verbatim>\<open>
    constexpr void Probability<EventName, Value>::Swap(Probability<EventName, Value>& other) noexcept {
      std::swap(event_name_, other.event_name_);
      std::swap(value_, other.value_);
    }
  \<close>
  \<open>Swap\<close> writes to two objects, which may be the same one (\<open>a.Swap(a)\<close>), so it is
  modelled on a store: a function from object addresses to object states. \<open>std::swap(x, y)\<close>
  is \<open>T tmp(std::move(x)); x = std::move(y); y = std::move(tmp);\<close>, each step reading the
  store as the step before left it.
\<close>

definition swap_event_name ::
  "('a \<Rightarrow> ('n, 'v) Probability) \<Rightarrow> 'a \<Rightarrow> 'a \<Rightarrow> ('a \<Rightarrow> ('n, 'v) Probability)" where
  "swap_event_name h this other =
     (let tmp = event_name' (h this);
          h = h(this := (h this)\<lparr>event_name' := event_name' (h other)\<rparr>);
          h = h(other := (h other)\<lparr>event_name' := tmp\<rparr>)
      in h)"

definition swap_value ::
  "('a \<Rightarrow> ('n, 'v) Probability) \<Rightarrow> 'a \<Rightarrow> 'a \<Rightarrow> ('a \<Rightarrow> ('n, 'v) Probability)" where
  "swap_value h this other =
     (let tmp = value' (h this);
          h = h(this := (h this)\<lparr>value' := value' (h other)\<rparr>);
          h = h(other := (h other)\<lparr>value' := tmp\<rparr>)
      in h)"

definition Swap ::
  "('a \<Rightarrow> ('n, 'v) Probability) \<Rightarrow> 'a \<Rightarrow> 'a \<Rightarrow> ('a \<Rightarrow> ('n, 'v) Probability)" where
  "Swap h this other =
     (let h = swap_event_name h this other;
          h = swap_value h this other
      in h)"

subsection \<open>Comparison\<close>

text \<open>
  \<^verbatim>\<open>bool operator<=>(const Probability& other) const = default;\<close>

  The only comparison the class declares is a defaulted three-way comparison whose declared
  return type is \<open>bool\<close>. A defaulted \<open>operator<=>\<close> compares the members in declaration
  order and returns \<open>static_cast<R>(a <=> b)\<close> of the first pair of members that differ,
  \<open>R\<close> being the declared return type (C++20, [class.spaceship]). The member comparisons
  yield a comparison category (\<open>std::strong_ordering\<close> for a string,
  \<open>std::partial_ordering\<close> for a floating-point value), and no conversion from a comparison
  category to \<open>bool\<close> exists, so the operator is defined as deleted: \<open>a <=> b\<close> and \<open>a < b\<close>
  on two records do not compile. The declaration gives no function to embed. Nor could a
  \<open>bool\<close> tell the outcomes less, equivalent and greater apart.
\<close>

section \<open>The value type \<open>double\<close>\<close>

text \<open>
  The concrete scenarios of the specification use the literals \<open>0.3\<close>, \<open>0.2\<close> and \<open>0.5\<close>,
  which have type \<open>double\<close>. A \<open>double\<close> is an IEEE 754 binary64 number: 64 bits, of which
  bit 63 is the sign, bits 62 to 52 the biased exponent \<open>E\<close> and bits 51 to 0 the fraction
  \<open>F\<close>. With \<open>E = 2047\<close> the value is an infinity (\<open>F = 0\<close>) or a NaN; with \<open>E = 0\<close> it is
  \<open>F * 2^-1074\<close>; otherwise it is \<open>(2^52 + F) * 2^(E - 1075)\<close>.
\<close>

datatype double = Double (bits: "64 word")

definition sign_bit :: "double \<Rightarrow> bool" where
  "sign_bit x = bit (bits x) 63"

definition biased_exponent :: "double \<Rightarrow> int" where
  "biased_exponent x = uint (take_bit 11 (drop_bit 52 (bits x)))"

definition fraction :: "double \<Rightarrow> int" where
  "fraction x = uint (take_bit 52 (bits x))"

definition isnan :: "double \<Rightarrow> bool" where
  "isnan x \<longleftrightarrow> biased_exponent x = 2047 \<and> fraction x \<noteq> 0"

definition isinf :: "double \<Rightarrow> bool" where
  "isinf x \<longleftrightarrow> biased_exponent x = 2047 \<and> fraction x = 0"

text \<open>A finite \<open>x\<close> is \<open>significand x * 2 ^ exponent2 x\<close>, the significand carrying the sign.\<close>

definition significand :: "double \<Rightarrow> int" where
  "significand x =
     (let m = (if biased_exponent x = 0 then fraction x else 2 ^ 52 + fraction x)
      in if sign_bit x then - m else m)"

definition exponent2 :: "double \<Rightarrow> int" where
  "exponent2 x = (if biased_exponent x = 0 then - 1074 else biased_exponent x - 1075)"

text \<open>
  Rounding to nearest, ties to even, of the positive rational \<open>num / den\<close>.
  \<open>floor_log2\<close> is the integer \<open>p\<close> with \<open>2^p \<le> num / den < 2^(p+1)\<close>. The result is a
  multiple \<open>n\<close> of \<open>2^k\<close>, where \<open>k = p - 52\<close> gives \<open>n\<close> 53 bits and \<open>k = -1074\<close> is the
  smallest exponent there is. The bit pattern of \<open>n * 2^k\<close> is \<open>(k + 1074) * 2^52 + n\<close>: for
  \<open>n < 2^52\<close> that is the subnormal \<open>n\<close> (then \<open>k = -1074\<close>), for \<open>2^52 \<le> n < 2^53\<close> it has
  \<open>E = k + 1075\<close> and \<open>F = n - 2^52\<close>, and for \<open>n = 2^53\<close> it has \<open>E = k + 1076\<close> and
  \<open>F = 0\<close>. A pattern beyond that of the largest finite number is the infinity.
\<close>

definition floor_log2 :: "int \<Rightarrow> int \<Rightarrow> int" where
  "floor_log2 num den =
     (let d = bitlen num - bitlen den
      in if den * 2 ^ nat d \<le> num * 2 ^ nat (- d) then d else d - 1)"

definition round_to_double :: "bool \<Rightarrow> int \<Rightarrow> int \<Rightarrow> double" where
  "round_to_double negative num den =
     (let k = max (- 1074) (floor_log2 num den - 52);
          N = num * 2 ^ nat (- k);
          D = den * 2 ^ nat k;
          q = N div D;
          r = N mod D;
          n = (if D < 2 * r \<or> (2 * r = D \<and> q mod 2 = 1) then q + 1 else q);
          magnitude = (if num = 0 then 0 else min ((k + 1074) * 2 ^ 52 + n) (2047 * 2 ^ 52))
      in Double (word_of_int ((if negative then 2 ^ 63 else 0) + magnitude)))"

text \<open>A decimal literal: \<open>0.3\<close> is \<open>double_of_decimal 3 1\<close>, the digits and the number of places.\<close>

definition double_of_decimal :: "int \<Rightarrow> nat \<Rightarrow> double" where
  "double_of_decimal digits places = round_to_double False digits (10 ^ places)"

text \<open>
  Addition. A NaN operand gives that operand, quieted; infinities of opposite sign give a
  NaN; otherwise an infinity gives itself. The sum of two finite numbers is computed exactly
  and rounded; an exact zero is \<open>-0\<close> only when both operands are negative. IEEE 754 leaves
  the sign and payload of a generated NaN to the platform; none of the theorems below
  depends on the choice made here.
\<close>

definition quiet_nan :: double where
  "quiet_nan = Double 0x7FF8000000000000"

definition fadd :: "double \<Rightarrow> double \<Rightarrow> double" where
  "fadd x y =
     (if isnan x then Double (bits x OR 0x0008000000000000)
      else if isnan y then Double (bits y OR 0x0008000000000000)
      else if isinf x then (if isinf y \<and> sign_bit x \<noteq> sign_bit y then quiet_nan else x)
      else if isinf y then y
      else
        let e = min (exponent2 x) (exponent2 y);
            t = significand x * 2 ^ nat (exponent2 x - e)
              + significand y * 2 ^ nat (exponent2 y - e)
        in if t = 0 then Double (if sign_bit x \<and> sign_bit y then 0x8000000000000000 else 0)
           else round_to_double (t < 0) (\<bar>t\<bar> * 2 ^ nat e) (2 ^ nat (- e)))"

text \<open>
  Comparison. Among the numbers that are not NaN, the order of the values is the order of the
  bit patterns read as sign and magnitude, the two zeros being equal. A NaN is neither equal
  to nor less than anything, itself included. \<open>double_eq\<close> is the \<open>==\<close> of C++; the \<open>=\<close> of
  HOL on \<open>double\<close> is identity of the bit pattern.
\<close>

definition order_key :: "double \<Rightarrow> int" where
  "order_key x = (let m = uint (take_bit 63 (bits x)) in if sign_bit x then - m else m)"

definition double_eq :: "double \<Rightarrow> double \<Rightarrow> bool" where
  "double_eq x y \<longleftrightarrow> \<not> isnan x \<and> \<not> isnan y \<and> order_key x = order_key y"

instantiation double :: "{zero, one, plus, ord}"
begin

definition zero_double :: double where
  "zero_double = Double 0"

definition one_double :: double where
  "one_double = Double 0x3FF0000000000000"

definition plus_double :: "double \<Rightarrow> double \<Rightarrow> double" where
  "plus_double x y = fadd x y"

definition less_double :: "double \<Rightarrow> double \<Rightarrow> bool" where
  "less_double x y \<longleftrightarrow> \<not> isnan x \<and> \<not> isnan y \<and> order_key x < order_key y"

definition less_eq_double :: "double \<Rightarrow> double \<Rightarrow> bool" where
  "less_eq_double x y \<longleftrightarrow> \<not> isnan x \<and> \<not> isnan y \<and> order_key x \<le> order_key y"

instance ..

end

section \<open>Setters and getters\<close>

text \<open>
  A call of \<open>SetEventName(const EventName&)\<close> never returns: each call makes the same call
  again.
\<close>

lemma SetEventName_copy_never_returns: "SetEventName_copy this n = None"
proof (cases "SetEventName_copy this n")
  case None
  then show ?thesis .
next
  case (Some r)
  have "SetEventName_copy this n = Some r \<Longrightarrow> False"
    by (rule SetEventName_copy.raw_induct[where P="\<lambda>_ _ _. False"]) (simp_all add: Let_def)
  with Some show ?thesis by blast
qed

text \<open>
  C1. After \<open>r.SetEventName(n)\<close>, \<open>r.GetEventName()\<close> returns \<open>n\<close>, for the overload taking
  an rvalue and for the overload taking an lvalue. The first half holds. The second does
  not: the call with an lvalue argument does not return, so there is no state in which
  \<open>GetEventName()\<close> could return \<open>n\<close>.
\<close>

theorem SetEventName_GetEventName:
  "GetEventName (SetEventName_move r n) = n \<and> SetEventName_copy r n = None"
  by (simp add: GetEventName_def SetEventName_move_def SetEventName_copy_never_returns)

text \<open>
  C2. For every record and every value \<open>v\<close> of the value type, \<open>SetValue(v)\<close> followed by
  \<open>GetValue()\<close> returns exactly \<open>v\<close>, through either overload. The setters are total
  functions of the value type: no value is rejected, clamped or altered, whatever it
  represents (a number outside [0,1], a negative number, a NaN).
\<close>

theorem SetValue_GetValue:
  "GetValue (SetValue_copy r v) = v \<and> GetValue (SetValue_move r v) = v"
  by (simp add: GetValue_def SetValue_copy_def SetValue_move_def)

text \<open>
  C10. Each mutator writes its own field only: \<open>SetValue\<close> (both overloads) and
  \<open>ChangeValue\<close> leave the event name as it was, and \<open>SetEventName\<close> leaves the value as it
  was. The overload of \<open>SetEventName\<close> taking an lvalue writes no field at all and has no
  state after the call, as it does not return.
\<close>

theorem mutators_frame:
  "GetEventName (SetValue_copy r v) = GetEventName r \<and>
   GetEventName (SetValue_move r v) = GetEventName r \<and>
   GetEventName (ChangeValue r d) = GetEventName r \<and>
   GetValue (SetEventName_move r n) = GetValue r \<and>
   SetEventName_copy r n = None"
  by (simp add: GetEventName_def GetValue_def SetValue_copy_def SetValue_move_def ChangeValue_def
      SetEventName_move_def SetEventName_copy_never_returns)

section \<open>Construction\<close>

text \<open>
  C3. A record constructed from \<open>(name, value)\<close>, by copy or by move, returns exactly \<open>name\<close>
  from \<open>GetEventName()\<close> and exactly \<open>value\<close> from \<open>GetValue()\<close>.
\<close>

theorem Probability_constructed_fields:
  "GetEventName (Probability_copy n v) = n \<and> GetValue (Probability_copy n v) = v \<and>
   GetEventName (Probability_move n v) = n \<and> GetValue (Probability_move n v) = v"
  by (simp add: GetEventName_def GetValue_def Probability_copy_def Probability_move_def)

text \<open>
  C9, as the claim states it: a default-constructed record has the value zero. The
  constructor does not write \<open>value_\<close>. For a default-initialized record
  (\<^verbatim>\<open>Probability<std::string, double> p;\<close>) whose storage held the bits of \<open>1.0\<close>,
  \<open>GetValue()\<close> is not zero.
\<close>

theorem default_value_counterexample:
  "\<not> double_eq (GetValue (Probability_default 1 :: (string, double) Probability)) 0"
  unfolding GetValue_def Probability_default_def by code_simp

text \<open>
  C9, amended. A default-constructed record has the default-constructed event name (the
  empty string when the event name is a string). Its value is what the storage of \<open>value_\<close>
  held before the constructor ran: zero for a value-initialized record, whose storage is
  zeroed first.
\<close>

theorem Probability_default_fields:
  "GetEventName (Probability_default s) = default \<and>
   GetEventName (Probability_default s :: (string, 'v) Probability) = [] \<and>
   GetValue (Probability_default s) = s \<and>
   GetValue (Probability_default 0) = 0"
  by (simp add: GetEventName_def GetValue_def Probability_default_def default_list_def)

section \<open>Changing the value\<close>

text \<open>
  The bit patterns of the literals and of \<open>-1.0\<close>, and a sum that is rounded: the doubles nearest to 0.1 and
  0.2 add to the double just above the one nearest to 0.3.
\<close>

lemma literal_bits:
  "double_of_decimal 3 1 = Double 0x3FD3333333333333 \<and>
   double_of_decimal 2 1 = Double 0x3FC999999999999A \<and>
   double_of_decimal 5 1 = Double 0x3FE0000000000000 \<and>
   double_of_decimal 1 0 = 1 \<and> double_of_decimal 0 0 = 0 \<and>
   round_to_double True 1 1 = Double 0xBFF0000000000000"
  by code_simp

lemma rounded_sum:
  "double_of_decimal 1 1 + double_of_decimal 2 1 = Double 0x3FD3333333333334 \<and>
   \<not> double_eq (double_of_decimal 1 1 + double_of_decimal 2 1) (double_of_decimal 3 1)"
  by code_simp

lemma ChangeValue_GetValue: "GetValue (ChangeValue r d) = GetValue r + d"
  by (simp add: GetValue_def ChangeValue_def)

lemma half_minus_one_negative:
  "0 \<le> double_of_decimal 5 1 \<and> double_of_decimal 5 1 \<le> 1 \<and>
   double_of_decimal 5 1 + Double 0xBFF0000000000000 < 0"
  by code_simp

lemma half_plus_one_above_one:
  "0 \<le> double_of_decimal 5 1 \<and> double_of_decimal 5 1 \<le> 1 \<and>
   1 < double_of_decimal 5 1 + 1"
  by code_simp

text \<open>
  C4. After \<open>r.ChangeValue(d)\<close>, \<open>r.GetValue()\<close> is the old value plus \<open>d\<close>, the sum being that
  of the value type. \<open>ChangeValue\<close> is a total function that returns the updated record and
  has no error result; there are records holding a value between 0 and 1 that it takes
  below zero (\<open>0.5\<close> changed by \<open>-1.0\<close>) and above one (\<open>0.5\<close> changed by \<open>1.0\<close>).
\<close>

theorem ChangeValue_adds:
  "GetValue (ChangeValue r d) = GetValue r + d \<and>
   (\<exists>(p :: (string, double) Probability) c.
      0 \<le> GetValue p \<and> GetValue p \<le> 1 \<and> GetValue (ChangeValue p c) < 0) \<and>
   (\<exists>(p :: (string, double) Probability) c.
      0 \<le> GetValue p \<and> GetValue p \<le> 1 \<and> 1 < GetValue (ChangeValue p c))"
proof (intro conjI)
  show "GetValue (ChangeValue r d) = GetValue r + d"
    by (rule ChangeValue_GetValue)
next
  let ?p = "\<lparr>event_name' = ''rain'', value' = double_of_decimal 5 1\<rparr>"
  have v: "GetValue ?p = double_of_decimal 5 1"
    by (simp add: GetValue_def)
  show "\<exists>(p :: (string, double) Probability) c.
      0 \<le> GetValue p \<and> GetValue p \<le> 1 \<and> GetValue (ChangeValue p c) < 0"
    using half_minus_one_negative
    by (intro exI[of _ ?p] exI[of _ "Double 0xBFF0000000000000"])
       (simp only: ChangeValue_GetValue v)
  show "\<exists>(p :: (string, double) Probability) c.
      0 \<le> GetValue p \<and> GetValue p \<le> 1 \<and> 1 < GetValue (ChangeValue p c)"
    using half_plus_one_above_one
    by (intro exI[of _ ?p] exI[of _ 1]) (simp only: ChangeValue_GetValue v)
qed

lemma sum_of_literals: "double_of_decimal 3 1 + double_of_decimal 2 1 = double_of_decimal 5 1"
  by code_simp

lemma literals_equal_themselves:
  "double_eq (double_of_decimal 3 1) (double_of_decimal 3 1) \<and>
   double_eq (double_of_decimal 5 1) (double_of_decimal 5 1)"
  by code_simp

text \<open>
  The steps that follow construction in the scenario of the specification, run on a record
  that holds the name \<open>rain\<close> and the double nearest to 0.3: after \<open>ChangeValue(0.2)\<close> the
  value is \<open>==\<close> to 0.5, and after \<open>SetEventName\<close> with a temporary holding \<open>storm\<close>, which
  selects the overload taking \<open>EventName&&\<close>, the name is \<open>storm\<close>.
\<close>

lemma steps_after_construction:
  "let r0 = \<lparr>event_name' = ''rain'', value' = double_of_decimal 3 1\<rparr>;
       r1 = ChangeValue r0 (double_of_decimal 2 1);
       r2 = SetEventName_move r1 ''storm''
   in double_eq (GetValue r0) (double_of_decimal 3 1) \<and>
      double_eq (GetValue r1) (double_of_decimal 5 1) \<and> GetEventName r2 = ''storm''"
  by (simp add: Let_def GetEventName_def GetValue_def ChangeValue_def SetEventName_move_def
      sum_of_literals literals_equal_themselves del: One_nat_def)

section \<open>Swap\<close>

lemma Swap_store: "Swap h a b = h(a := h b, b := h a)"
  by (cases "a = b")
     (auto simp add: Swap_def swap_event_name_def swap_value_def Let_def fun_eq_iff)

text \<open>
  C5. After \<open>a.Swap(b)\<close> the object \<open>a\<close> holds the event name and value that \<open>b\<close> had and \<open>b\<close>
  holds those that \<open>a\<close> had, every other object being untouched; a second \<open>a.Swap(b)\<close>
  restores the store. \<open>Swap\<close> is a total function of the store with no error result, also
  when \<open>a\<close> and \<open>b\<close> are the same object.
\<close>

theorem Swap_exchanges:
  "Swap h a b = h(a := h b, b := h a) \<and>
   GetEventName (Swap h a b a) = GetEventName (h b) \<and>
   GetValue (Swap h a b a) = GetValue (h b) \<and>
   GetEventName (Swap h a b b) = GetEventName (h a) \<and>
   GetValue (Swap h a b b) = GetValue (h a) \<and>
   Swap (Swap h a b) a b = h"
  by (cases "a = b") (auto simp add: Swap_store fun_eq_iff)

end
